theory Spec2Isabelle
  imports Complex_Main
begin

section \<open>Python strings and lists\<close>

text \<open>
  Python strings are modelled as \<^typ>\<open>string\<close>, one \<^typ>\<open>char\<close> per code point, which
  covers the code points below 256. Floats are modelled as \<^typ>\<open>real\<close>; binary rounding,
  infinities and NaN are outside the model.
\<close>

definition isspace :: "char \<Rightarrow> bool" where
  \<comment> \<open>\<open>str.isspace\<close> on one character, for the code points below 256\<close>
  "isspace c =
     (let n = (of_char c :: nat)
      in (9 \<le> n \<and> n \<le> 13) \<or> (28 \<le> n \<and> n \<le> 32) \<or> n = 133 \<or> n = 160)"

definition strip :: "string \<Rightarrow> string" where
  \<comment> \<open>\<open>s.strip()\<close>\<close>
  "strip s = rev (dropWhile isspace (rev (dropWhile isspace s)))"

fun split_on :: "char \<Rightarrow> string \<Rightarrow> string list" where
  \<comment> \<open>\<open>s.split(sep)\<close> for a separator of one character; empty pieces are kept\<close>
  "split_on sep [] = [[]]"
| "split_on sep (c # cs) =
     (if c = sep then [] # split_on sep cs
      else (case split_on sep cs of
              [] \<Rightarrow> [[c]]
            | l # ls \<Rightarrow> (c # l) # ls))"

fun split_ws_from :: "string \<Rightarrow> string \<Rightarrow> string list" where
  \<comment> \<open>the loop of \<open>s.split()\<close>: \<open>cur\<close> is the word being read, reversed\<close>
  "split_ws_from cur [] = (if cur = [] then [] else [rev cur])"
| "split_ws_from cur (c # cs) =
     (if isspace c then (if cur = [] then split_ws_from [] cs
                         else rev cur # split_ws_from [] cs)
      else split_ws_from (c # cur) cs)"

definition split_ws :: "string \<Rightarrow> string list" where
  \<comment> \<open>\<open>s.split()\<close>: the maximal runs of non-whitespace characters\<close>
  "split_ws s = split_ws_from [] s"

definition startswith :: "string \<Rightarrow> string \<Rightarrow> bool" where
  \<comment> \<open>\<open>s.startswith(p)\<close>\<close>
  "startswith s p = (take (length p) s = p)"

function py_replace :: "string \<Rightarrow> string \<Rightarrow> string \<Rightarrow> string" where
  \<comment> \<open>\<open>s.replace(old, new)\<close>: every occurrence, left to right, without overlap\<close>
  "py_replace old new [] = (if old = [] then new else [])"
| "py_replace old new (c # cs) =
     (if old = [] then new @ c # py_replace old new cs
      else if startswith (c # cs) old
           then new @ py_replace old new (drop (length old) (c # cs))
           else c # py_replace old new cs)"
  by pat_completeness auto
termination
  by (relation "measure (\<lambda>(old, new, s). length s)") auto

fun index_of :: "'a \<Rightarrow> 'a list \<Rightarrow> nat option" where
  \<comment> \<open>\<open>xs.index(x)\<close>; \<open>None\<close> where Python raises ValueError\<close>
  "index_of x [] = None"
| "index_of x (y # ys) =
     (if x = y then Some 0
      else (case index_of x ys of None \<Rightarrow> None | Some k \<Rightarrow> Some (Suc k)))"

fun py_join :: "string \<Rightarrow> string list \<Rightarrow> string" where
  \<comment> \<open>\<open>sep.join(xs)\<close>\<close>
  "py_join sep [] = []"
| "py_join sep [x] = x"
| "py_join sep (x # y # ys) = x @ sep @ py_join sep (y # ys)"

definition py_find :: "string \<Rightarrow> char \<Rightarrow> int" where
  \<comment> \<open>\<open>s.find(c)\<close> for one character: the first index, or -1\<close>
  "py_find s c = (case index_of c s of None \<Rightarrow> - 1 | Some k \<Rightarrow> int k)"

definition py_rfind :: "string \<Rightarrow> char \<Rightarrow> int" where
  \<comment> \<open>\<open>s.rfind(c)\<close> for one character: the last index, or -1\<close>
  "py_rfind s c =
     (case index_of c (rev s) of
        None \<Rightarrow> - 1
      | Some k \<Rightarrow> int (length s) - 1 - int k)"

definition py_slice :: "'a list \<Rightarrow> int \<Rightarrow> int \<Rightarrow> 'a list" where
  \<comment> \<open>\<open>xs[a:b]\<close> for \<open>0 \<le> a\<close> and \<open>0 \<le> b\<close>, the only case the parsers reach\<close>
  "py_slice xs a b = take (nat b - nat a) (drop (nat a) xs)"

definition py_index :: "'a list \<Rightarrow> int \<Rightarrow> 'a option" where
  \<comment> \<open>\<open>xs[i]\<close>: a negative index counts from the end; \<open>None\<close> where Python raises IndexError\<close>
  "py_index xs i =
     (if 0 \<le> i \<and> i < int (length xs) then Some (xs ! nat i)
      else if - int (length xs) \<le> i \<and> i < 0 then Some (xs ! nat (int (length xs) + i))
      else None)"

fun find_index_where :: "('a \<Rightarrow> bool) \<Rightarrow> 'a list \<Rightarrow> nat option" where
  \<comment> \<open>\<open>next((i for i, x in enumerate(xs) if p(x)), None)\<close>\<close>
  "find_index_where p [] = None"
| "find_index_where p (x # xs) =
     (if p x then Some 0
      else (case find_index_where p xs of None \<Rightarrow> None | Some k \<Rightarrow> Some (Suc k)))"

fun map_raise :: "('a \<Rightarrow> 'b option) \<Rightarrow> 'a list \<Rightarrow> 'b list option" where
  \<comment> \<open>a list comprehension whose element expression may raise (\<open>None\<close>)\<close>
  "map_raise f [] = Some []"
| "map_raise f (x # xs) =
     (case f x of
        None \<Rightarrow> None
      | Some y \<Rightarrow> (case map_raise f xs of None \<Rightarrow> None | Some ys \<Rightarrow> Some (y # ys)))"

function str_nat :: "nat \<Rightarrow> string" where
  "str_nat n =
     (if n < 10 then [char_of (48 + n)]
      else str_nat (n div 10) @ [char_of (48 + n mod 10)])"
  by pat_completeness auto
termination
  by (relation "measure id") auto

definition str_int :: "int \<Rightarrow> string" where
  \<comment> \<open>\<open>str(i)\<close> for an integer\<close>
  "str_int i = (if i < 0 then CHR ''-'' # str_nat (nat (- i)) else str_nat (nat i))"

section \<open>Data model (app/models/story\_models.py)\<close>

text \<open>
  Each pydantic model is a record; the fields carry a prefix naming their model, since
  several models share field names. \<open>Optional\<close> fields are options. The timestamps
  \<open>created_at\<close> and \<open>updated_at\<close> are left out: no operation reads them.
\<close>

record Character =
  ch_name :: string
  ch_description :: string
  ch_role :: string
  ch_background :: "string option"
  ch_motivations :: "string option"
  ch_relationships :: "(string \<times> string) list option"

record StorySettings =
  ss_genre :: string
  ss_setting :: string
  ss_tone :: string
  ss_themes :: "string list"
  ss_world_building :: "string option"
  ss_target_length :: "string option"

record ChapterOutline =
  co_chapter_number :: int
  co_title :: string
  co_summary :: string
  co_key_events :: "string list"
  co_characters_involved :: "string list"
  co_purpose :: string

record StoryOutline =
  so_title :: string
  so_premise :: string
  so_plot_structure :: string
  so_chapters :: "ChapterOutline list"
  so_estimated_word_count :: "int option"

record GeneratedChapter =
  gc_chapter_number :: int
  gc_title :: string
  gc_outline :: string
  gc_dialogue :: string
  gc_content :: string
  gc_word_count :: int
  gc_validation_score :: "real option"
  gc_validation_feedback :: "string option"

datatype WorkflowStep =
  CHARACTERS_SETTINGS | OUTLINE | CHAPTER_GENERATION | VALIDATION | COMPLETED

record StoryWorkflow =
  wf_id :: string
  wf_original_prompt :: string
  wf_current_step :: WorkflowStep
  wf_characters :: "Character list"
  wf_settings :: "StorySettings option"
  wf_outline :: "StoryOutline option"
  wf_chapters :: "GeneratedChapter list"
  wf_model :: "string option"
  wf_temperature :: real
  wf_top_p :: real
  wf_total_chapters_planned :: int
  wf_chapters_completed :: int
  wf_is_complete :: bool

record CreateWorkflowRequest =
  cr_prompt :: string
  cr_model :: "string option"
  cr_temperature :: "real option"
  cr_top_p :: "real option"


section \<open>Library functions and the outside world\<close>

datatype json =
  JNull | JBool bool | JInt int | JFloat real | JStr string
  | JArr "json list" | JObj "(string \<times> json) list"

datatype http_outcome =
  Raised string
  | Response int string "string option"

text \<open>
  What \<open>client.post\<close> and \<open>response.json()\<close> do is not code of the repository.
  \<^term>\<open>Raised msg\<close> is an exception \<open>e\<close> with \<open>str(e) = msg\<close> raised by the request or
  by decoding its body; \<^term>\<open>Response code text field\<close> is a response with that status
  code and body text whose JSON body, when the status is 200, has \<open>field\<close> under the key
  \<open>"response"\<close> (\<open>None\<close> when the key is absent).

  The record \<open>env\<close> holds the library functions the services call and the outcome of
  each HTTP request, numbered in the order the requests are made. \<open>None\<close> stands for a
  raised exception: \<open>json.loads\<close> (JSONDecodeError), \<open>float\<close> (ValueError) and the
  constructors of the pydantic models applied to keyword arguments (ValidationError).
\<close>

record env =
  json_loads :: "string \<Rightarrow> json option"
  py_float :: "string \<Rightarrow> real option"
  new_Character :: "(string \<times> json) list \<Rightarrow> Character option"
  new_StorySettings :: "(string \<times> json) list \<Rightarrow> StorySettings option"
  new_ChapterOutline :: "(string \<times> json) list \<Rightarrow> ChapterOutline option"
  new_StoryOutline ::
    "json \<Rightarrow> json \<Rightarrow> json \<Rightarrow> ChapterOutline list \<Rightarrow> json \<Rightarrow> StoryOutline option"
  client_post :: "nat \<Rightarrow> http_outcome"

definition dict_get :: "(string \<times> json) list \<Rightarrow> string \<Rightarrow> json \<Rightarrow> json" where
  \<comment> \<open>\<open>d.get(key, default)\<close>\<close>
  "dict_get d key dflt = (case map_of d key of None \<Rightarrow> dflt | Some v \<Rightarrow> v)"

definition py_iter :: "json \<Rightarrow> json list option" where
  \<comment> \<open>iterating over a decoded value: a dict yields its keys, a string its characters;
      \<open>None\<close> is the TypeError of a value that is not iterable\<close>
  "py_iter v =
     (case v of
        JArr xs \<Rightarrow> Some xs
      | JObj kvs \<Rightarrow> Some (map (\<lambda>kv. JStr (fst kv)) kvs)
      | JStr s \<Rightarrow> Some (map (\<lambda>c. JStr [c]) s)
      | _ \<Rightarrow> None)"

definition kwargs :: "json \<Rightarrow> (string \<times> json) list option" where
  \<comment> \<open>\<open>**v\<close>: \<open>None\<close> is the TypeError of a value that is not a mapping\<close>
  "kwargs v = (case v of JObj kvs \<Rightarrow> Some kvs | _ \<Rightarrow> None)"

section \<open>Settings (app/core/config.py)\<close>

definition OLLAMA_DEFAULT_MODEL :: string where
  "OLLAMA_DEFAULT_MODEL = ''qwen3:8b''"

definition DEFAULT_VALIDATION_THRESHOLD :: real where
  "DEFAULT_VALIDATION_THRESHOLD = 7 / 10"

section \<open>The text-generation service (app/services/ollama\_service.py)\<close>

text \<open>
  A \<open>payload\<close> is the JSON body of one request. The prompt text is left out of the
  model: the prompt builders only format fields of the workflow into text, and no
  property below reads the prompt.
\<close>

record payload =
  pl_model :: string
  pl_stream :: bool
  pl_temperature :: real
  pl_top_p :: real
  pl_num_predict :: int
  pl_system :: "string option"

record state =
  workflows :: "string \<rightharpoonup> StoryWorkflow"
  posted :: "payload list"

text \<open>
  The state of the program: the dictionary \<open>self.workflows\<close> of the workflow service,
  and the requests posted to the text-generation service so far. A workflow object is
  only reached through the dictionary, so mutating it in place is an update of the
  dictionary at its id.
\<close>

definition generate_story_complete ::
  "env \<Rightarrow> state \<Rightarrow> string option \<Rightarrow> real \<Rightarrow> real \<Rightarrow> string option \<Rightarrow> string \<times> state" where
  "generate_story_complete e st model temperature top_p system_prompt =
     (let model' = (case model of
                      None \<Rightarrow> OLLAMA_DEFAULT_MODEL
                    | Some m \<Rightarrow> if m = [] then OLLAMA_DEFAULT_MODEL else m);
          pl = \<lparr>pl_model = model', pl_stream = False, pl_temperature = temperature,
                pl_top_p = top_p, pl_num_predict = - 1,
                pl_system = (case system_prompt of
                               None \<Rightarrow> None
                             | Some s \<Rightarrow> if s = [] then None else Some s)\<rparr>;
          st' = st\<lparr>posted := posted st @ [pl]\<rparr>
      in (case client_post e (length (posted st)) of
            Raised msg \<Rightarrow> (''Error: '' @ msg, st')
          | Response status_code text field \<Rightarrow>
              if status_code = 200
              then ((case field of None \<Rightarrow> [] | Some r \<Rightarrow> r), st')
              else (''Error: '' @ (''Ollama API error: '' @ str_int status_code
                                   @ '' - '' @ text), st')))"

section \<open>The workflow service (app/services/story\_workflow\_service.py)\<close>

datatype error = ValueError string | IndexError | AttributeError | ValidationError

text \<open>
  The exceptions an operation of the service can raise. The routes answer a
  \<^const>\<open>ValueError\<close> with status 404 and every other exception with status 500.
\<close>

subsection \<open>Parsing the replies\<close>

definition fallback_characters :: "Character list" where
  "fallback_characters =
     [\<lparr>ch_name = ''Main Character'', ch_description = ''The protagonist of the story'',
       ch_role = ''protagonist'', ch_background = None, ch_motivations = None,
       ch_relationships = None\<rparr>]"

definition fallback_settings :: StorySettings where
  "fallback_settings =
     \<lparr>ss_genre = ''Fiction'', ss_setting = ''Contemporary'', ss_tone = ''Engaging'',
      ss_themes = [], ss_world_building = None, ss_target_length = Some ''medium''\<rparr>"

definition fallback_outline :: StoryOutline where
  "fallback_outline =
     \<lparr>so_title = ''Untitled Story'', so_premise = ''A story premise'',
      so_plot_structure = ''Basic three-act structure'',
      so_chapters =
        [\<lparr>co_chapter_number = 1, co_title = ''Chapter 1'', co_summary = ''Opening chapter'',
          co_key_events = [], co_characters_involved = [],
          co_purpose = ''Introduce the story and characters''\<rparr>],
      so_estimated_word_count = None\<rparr>"

definition try_characters_settings ::
  "env \<Rightarrow> string \<Rightarrow> (Character list \<times> StorySettings) option" where
  \<comment> \<open>the \<open>try\<close> block of \<open>_parse_characters_settings_response\<close>; \<open>None\<close> when it raises\<close>
  "try_characters_settings e response =
     (let start = py_find response (CHR ''{'');
          end = py_rfind response (CHR ''}'') + 1
      in if start \<noteq> - 1 \<and> end \<noteq> 0 then
           (case json_loads e (py_slice response start end) of
              None \<Rightarrow> None
            | Some (JObj data) \<Rightarrow>
                (case py_iter (dict_get data ''characters'' (JArr [])) of
                   None \<Rightarrow> None
                 | Some items \<Rightarrow>
                     (case map_raise (\<lambda>char_data.
                              case kwargs char_data of
                                None \<Rightarrow> None
                              | Some kw \<Rightarrow> new_Character e kw) items of
                        None \<Rightarrow> None
                      | Some characters \<Rightarrow>
                          (case kwargs (dict_get data ''settings'' (JObj [])) of
                             None \<Rightarrow> None
                           | Some kw \<Rightarrow>
                               (case new_StorySettings e kw of
                                  None \<Rightarrow> None
                                | Some settings \<Rightarrow> Some (characters, settings)))))
            | Some _ \<Rightarrow> None)
         else None)"

definition parse_characters_settings_response ::
  "env \<Rightarrow> string \<Rightarrow> Character list \<times> StorySettings" where
  "parse_characters_settings_response e response =
     (case try_characters_settings e response of
        Some r \<Rightarrow> r
      | None \<Rightarrow> (fallback_characters, fallback_settings))"

datatype 'a attempt = Returned 'a | Excepted

definition try_outline :: "env \<Rightarrow> string \<Rightarrow> StoryOutline option attempt" where
  \<comment> \<open>the \<open>try\<close> block of \<open>_parse_outline_response\<close>: \<open>Returned (Some outline)\<close> at its
      \<open>return\<close>, \<open>Excepted\<close> when it raises, and \<open>Returned None\<close> when the \<open>if\<close>, which has
      no \<open>else\<close>, is not taken and control leaves the block without a \<open>return\<close>\<close>
  "try_outline e response =
     (let start = py_find response (CHR ''{'');
          end = py_rfind response (CHR ''}'') + 1
      in if start \<noteq> - 1 \<and> end \<noteq> 0 then
           (case json_loads e (py_slice response start end) of
              None \<Rightarrow> Excepted
            | Some (JObj data) \<Rightarrow>
                (case py_iter (dict_get data ''chapters'' (JArr [])) of
                   None \<Rightarrow> Excepted
                 | Some chapters_data \<Rightarrow>
                     (case map_raise (\<lambda>chapter_data.
                              case kwargs chapter_data of
                                None \<Rightarrow> None
                              | Some kw \<Rightarrow> new_ChapterOutline e kw) chapters_data of
                        None \<Rightarrow> Excepted
                      | Some chapters \<Rightarrow>
                          (case new_StoryOutline e
                                  (dict_get data ''title'' (JStr ''Untitled Story''))
                                  (dict_get data ''premise'' (JStr []))
                                  (dict_get data ''plot_structure'' (JStr []))
                                  chapters
                                  (dict_get data ''estimated_word_count'' JNull) of
                             None \<Rightarrow> Excepted
                           | Some outline \<Rightarrow> Returned (Some outline))))
            | Some _ \<Rightarrow> Excepted)
         else Returned None)"

definition parse_outline_response :: "env \<Rightarrow> string \<Rightarrow> StoryOutline option" where
  \<comment> \<open>\<open>None\<close> is Python's \<open>None\<close>, the value of a function that ends without \<open>return\<close>\<close>
  "parse_outline_response e response =
     (case try_outline e response of
        Returned r \<Rightarrow> r
      | Excepted \<Rightarrow> Some fallback_outline)"

fun scan_lines ::
  "env \<Rightarrow> string list \<Rightarrow> string list \<Rightarrow> real \<Rightarrow> string \<Rightarrow> (real \<times> string) option" where
  \<comment> \<open>the \<open>for\<close> loop of \<open>_parse_validation_response\<close> over the lines still to read, with the
      values of \<open>score\<close> and \<open>feedback\<close> so far; \<open>None\<close> when the loop raises\<close>
  "scan_lines e lines [] score feedback = Some (score, feedback)"
| "scan_lines e lines (line # rest) score feedback =
     (if startswith line ''SCORE:'' then
        (case py_float e (strip (py_replace ''SCORE:'' [] line)) of
           None \<Rightarrow> None
         | Some v \<Rightarrow> scan_lines e lines rest v feedback)
      else if startswith line ''FEEDBACK:'' then
        (case index_of line lines of
           None \<Rightarrow> None
         | Some k \<Rightarrow>
             (let fb = strip (py_replace ''FEEDBACK:'' [] line);
                  remaining_lines = drop (k + 1) lines
              in Some (score,
                       if remaining_lines \<noteq> []
                       then fb @ [CHR 0x0A] @ py_join [CHR 0x0A] remaining_lines
                       else fb)))
      else scan_lines e lines rest score feedback)"

definition parse_validation_response :: "env \<Rightarrow> string \<Rightarrow> real \<times> string" where
  "parse_validation_response e response =
     (let lines = split_on (CHR 0x0A) (strip response)
      in case scan_lines e lines lines (8 / 10) response of
           Some r \<Rightarrow> r
         | None \<Rightarrow> (7 / 10, response))"

subsection \<open>The stage operations\<close>

definition not_found :: "string \<Rightarrow> error" where
  \<comment> \<open>\<open>ValueError(f"Workflow {workflow_id} not found")\<close>\<close>
  "not_found workflow_id = ValueError (''Workflow '' @ workflow_id @ '' not found'')"

definition create_workflow ::
  "state \<Rightarrow> string \<Rightarrow> CreateWorkflowRequest \<Rightarrow> (error + StoryWorkflow) \<times> state" where
  \<comment> \<open>\<open>new_id\<close> is the value of \<open>uuid.uuid4()\<close>; a request whose temperature or top\_p is
      \<open>None\<close> fails the validation of the float fields of \<open>StoryWorkflow\<close>\<close>
  "create_workflow st new_id request =
     (case (cr_temperature request, cr_top_p request) of
        (Some t, Some p) \<Rightarrow>
          (let workflow =
                 \<lparr>wf_id = new_id, wf_original_prompt = cr_prompt request,
                  wf_current_step = CHARACTERS_SETTINGS, wf_characters = [],
                  wf_settings = None, wf_outline = None, wf_chapters = [],
                  wf_model = Some (case cr_model request of
                                     None \<Rightarrow> OLLAMA_DEFAULT_MODEL
                                   | Some m \<Rightarrow> if m = [] then OLLAMA_DEFAULT_MODEL else m),
                  wf_temperature = t, wf_top_p = p, wf_total_chapters_planned = 0,
                  wf_chapters_completed = 0, wf_is_complete = False\<rparr>
           in (Inr workflow, st\<lparr>workflows := (workflows st)(new_id \<mapsto> workflow)\<rparr>))
      | _ \<Rightarrow> (Inl ValidationError, st))"

definition get_workflow :: "state \<Rightarrow> string \<Rightarrow> StoryWorkflow option" where
  "get_workflow st workflow_id = workflows st workflow_id"

definition generate_characters_and_settings ::
  "env \<Rightarrow> state \<Rightarrow> string \<Rightarrow> (error + StoryWorkflow) \<times> state" where
  "generate_characters_and_settings e st workflow_id =
     (case get_workflow st workflow_id of
        None \<Rightarrow> (Inl (not_found workflow_id), st)
      | Some workflow \<Rightarrow>
          (let (response, st1) =
                 generate_story_complete e st (wf_model workflow) (wf_temperature workflow)
                   (wf_top_p workflow)
                   (Some ''You are an expert story planner. Generate detailed characters and settings in the specified JSON format.'');
               (characters, settings) = parse_characters_settings_response e response;
               workflow' = workflow\<lparr>wf_characters := characters,
                                     wf_settings := Some settings,
                                     wf_current_step := OUTLINE\<rparr>
           in (Inr workflow', st1\<lparr>workflows := (workflows st1)(workflow_id \<mapsto> workflow')\<rparr>)))"

definition generate_outline ::
  "env \<Rightarrow> state \<Rightarrow> string \<Rightarrow> (error + StoryWorkflow) \<times> state" where
  \<comment> \<open>\<open>workflow.outline = outline\<close> is executed before \<open>len(outline.chapters)\<close>, which raises
      AttributeError when the parser returned \<open>None\<close>: the workflow keeps the assignment\<close>
  "generate_outline e st workflow_id =
     (case get_workflow st workflow_id of
        None \<Rightarrow> (Inl (not_found workflow_id), st)
      | Some workflow \<Rightarrow>
          if wf_characters workflow = [] \<or> wf_settings workflow = None
          then (Inl (ValueError ''Characters and settings must be generated first''), st)
          else
            (let (response, st1) =
                   generate_story_complete e st (wf_model workflow) (wf_temperature workflow)
                     (wf_top_p workflow)
                     (Some ''You are an expert story outliner. Create a detailed story outline in the specified JSON format.'');
                 outline = parse_outline_response e response;
                 workflow1 = workflow\<lparr>wf_outline := outline\<rparr>
             in case outline of
                  None \<Rightarrow>
                    (Inl AttributeError,
                     st1\<lparr>workflows := (workflows st1)(workflow_id \<mapsto> workflow1)\<rparr>)
                | Some ol \<Rightarrow>
                    (let workflow' =
                           workflow1\<lparr>wf_total_chapters_planned := int (length (so_chapters ol)),
                                      wf_current_step := CHAPTER_GENERATION\<rparr>
                     in (Inr workflow',
                         st1\<lparr>workflows := (workflows st1)(workflow_id \<mapsto> workflow')\<rparr>))))"

definition generate_chapter_outline ::
  "env \<Rightarrow> state \<Rightarrow> StoryWorkflow \<Rightarrow> (error + string) \<times> state" where
  \<comment> \<open>\<open>_generate_chapter_outline\<close>: its prompt reads \<open>workflow.settings.genre\<close>, an
      AttributeError when the settings are \<open>None\<close>\<close>
  "generate_chapter_outline e st workflow =
     (case wf_settings workflow of
        None \<Rightarrow> (Inl AttributeError, st)
      | Some settings \<Rightarrow>
          (let (r, st') =
                 generate_story_complete e st (wf_model workflow) (wf_temperature workflow)
                   (wf_top_p workflow)
                   (Some ''You are an expert chapter outliner. Create detailed, scene-by-scene chapter outlines. Output only the outline content without any headers or explanatory text.'')
           in (Inr r, st')))"

definition generate_chapter_dialogue ::
  "env \<Rightarrow> state \<Rightarrow> StoryWorkflow \<Rightarrow> string \<times> state" where
  "generate_chapter_dialogue e st workflow =
     generate_story_complete e st (wf_model workflow) (wf_temperature workflow)
       (wf_top_p workflow)
       (Some ''You are an expert dialogue writer. Create realistic, engaging dialogue that advances character and plot. Output only the dialogue content without any headers or explanatory text.'')"

definition generate_chapter_content ::
  "env \<Rightarrow> state \<Rightarrow> StoryWorkflow \<Rightarrow> (error + string) \<times> state" where
  \<comment> \<open>\<open>_generate_chapter_content\<close>: its prompt reads \<open>workflow.settings.genre\<close> too\<close>
  "generate_chapter_content e st workflow =
     (case wf_settings workflow of
        None \<Rightarrow> (Inl AttributeError, st)
      | Some settings \<Rightarrow>
          (let (r, st') =
                 generate_story_complete e st (wf_model workflow) (wf_temperature workflow)
                   (wf_top_p workflow)
                   (Some ''You are an expert novelist. Write engaging, well-crafted chapters with rich description and compelling narrative. Output only the story content without any headers, titles, or explanatory text.'')
           in (Inr r, st')))"

definition store_chapter :: "StoryWorkflow \<Rightarrow> GeneratedChapter \<Rightarrow> StoryWorkflow" where
  \<comment> \<open>the "update or add chapter" step of \<open>generate_chapter\<close>\<close>
  "store_chapter workflow generated_chapter =
     (case find_index_where
             (\<lambda>ch. gc_chapter_number ch = gc_chapter_number generated_chapter)
             (wf_chapters workflow) of
        Some existing_chapter_index \<Rightarrow>
          workflow\<lparr>wf_chapters :=
                     (wf_chapters workflow)[existing_chapter_index := generated_chapter]\<rparr>
      | None \<Rightarrow>
          workflow\<lparr>wf_chapters := wf_chapters workflow @ [generated_chapter],
                    wf_chapters_completed := wf_chapters_completed workflow + 1\<rparr>)"

definition generate_chapter ::
  "env \<Rightarrow> state \<Rightarrow> string \<Rightarrow> int \<Rightarrow> (error + StoryWorkflow) \<times> state" where
  "generate_chapter e st workflow_id chapter_number =
     (case get_workflow st workflow_id of
        None \<Rightarrow> (Inl (not_found workflow_id), st)
      | Some workflow \<Rightarrow>
          (case wf_outline workflow of
             None \<Rightarrow> (Inl (ValueError ''Story outline must be generated first''), st)
           | Some outline \<Rightarrow>
               if chapter_number > int (length (so_chapters outline))
               then (Inl (ValueError (''Chapter '' @ str_int chapter_number
                                      @ '' not found in outline'')), st)
               else
                 (case py_index (so_chapters outline) (chapter_number - 1) of
                    None \<Rightarrow> (Inl IndexError, st)
                  | Some chapter_outline \<Rightarrow>
                      (case generate_chapter_outline e st workflow of
                         (Inl err, st1) \<Rightarrow> (Inl err, st1)
                       | (Inr outline_response, st1) \<Rightarrow>
                           (case generate_chapter_dialogue e st1 workflow of
                              (dialogue_response, st2) \<Rightarrow>
                                (case generate_chapter_content e st2 workflow of
                                   (Inl err, st3) \<Rightarrow> (Inl err, st3)
                                 | (Inr content_response, st3) \<Rightarrow>
                                     (let generated_chapter =
                                            \<lparr>gc_chapter_number = chapter_number,
                                             gc_title = co_title chapter_outline,
                                             gc_outline = outline_response,
                                             gc_dialogue = dialogue_response,
                                             gc_content = content_response,
                                             gc_word_count =
                                               int (length (split_ws content_response)),
                                             gc_validation_score = None,
                                             gc_validation_feedback = None\<rparr>;
                                          workflow' = store_chapter workflow generated_chapter
                                      in (Inr workflow',
                                          st3\<lparr>workflows :=
                                                (workflows st3)(workflow_id \<mapsto> workflow')\<rparr>))))))))"

definition validate_chapter ::
  "env \<Rightarrow> state \<Rightarrow> string \<Rightarrow> int \<Rightarrow> (error + StoryWorkflow) \<times> state" where
  "validate_chapter e st workflow_id chapter_number =
     (case get_workflow st workflow_id of
        None \<Rightarrow> (Inl (not_found workflow_id), st)
      | Some workflow \<Rightarrow>
          (case find_index_where (\<lambda>ch. gc_chapter_number ch = chapter_number)
                  (wf_chapters workflow) of
             None \<Rightarrow> (Inl (ValueError (''Chapter '' @ str_int chapter_number
                                       @ '' not found'')), st)
           | Some k \<Rightarrow>
               (case wf_outline workflow of
                  None \<Rightarrow> (Inl AttributeError, st)
                | Some outline \<Rightarrow>
                    (case py_index (so_chapters outline) (chapter_number - 1) of
                       None \<Rightarrow> (Inl IndexError, st)
                     | Some outline_chapter \<Rightarrow>
                         (let (response, st1) =
                                generate_story_complete e st (wf_model workflow) (3 / 10)
                                  (wf_top_p workflow)
                                  (Some ''You are an expert story editor. Analyze how well the chapter matches the outline and provide constructive feedback.'');
                              (score, feedback) = parse_validation_response e response;
                              chapter = (wf_chapters workflow ! k)
                                          \<lparr>gc_validation_score := Some score,
                                           gc_validation_feedback := Some feedback\<rparr>;
                              workflow' = workflow\<lparr>wf_chapters :=
                                                     (wf_chapters workflow)[k := chapter]\<rparr>
                          in (Inr workflow',
                              st1\<lparr>workflows :=
                                    (workflows st1)(workflow_id \<mapsto> workflow')\<rparr>))))))"

subsection \<open>Generating all chapters\<close>

text \<open>
  A progress event is the dictionary the generator yields: a key it does not set is
  \<open>None\<close>. The \<open>message\<close> texts are left out.
\<close>

record event =
  ev_type :: string
  ev_chapter_number :: "int option"
  ev_chapter_title :: "string option"
  ev_current :: "nat option"
  ev_total :: "nat option"
  ev_status :: "string option"
  ev_attempt :: "nat option"
  ev_attempts :: "nat option"
  ev_validation_score :: "real option"
  ev_validation_threshold :: "real option"
  ev_word_count :: "int option"
  ev_total_chapters :: "nat option"
  ev_workflow :: "StoryWorkflow option"

definition chapter_event ::
  "string \<Rightarrow> string \<Rightarrow> ChapterOutline \<Rightarrow> nat \<Rightarrow> nat \<Rightarrow> event" where
  \<comment> \<open>the keys every event about one chapter has; \<open>i\<close> is the index of \<open>enumerate\<close>\<close>
  "chapter_event typ status chapter_outline i tot =
     \<lparr>ev_type = typ, ev_chapter_number = Some (co_chapter_number chapter_outline),
      ev_chapter_title = Some (co_title chapter_outline), ev_current = Some (i + 1),
      ev_total = Some tot, ev_status = Some status, ev_attempt = None,
      ev_attempts = None, ev_validation_score = None, ev_validation_threshold = None,
      ev_word_count = None, ev_total_chapters = None, ev_workflow = None\<rparr>"

definition complete_event :: "nat option \<Rightarrow> StoryWorkflow \<Rightarrow> event" where
  "complete_event total_chapters workflow =
     \<lparr>ev_type = ''complete'', ev_chapter_number = None, ev_chapter_title = None,
      ev_current = None, ev_total = None, ev_status = None, ev_attempt = None,
      ev_attempts = None, ev_validation_score = None, ev_validation_threshold = None,
      ev_word_count = None, ev_total_chapters = total_chapters,
      ev_workflow = Some workflow\<rparr>"

definition generating_event :: "ChapterOutline \<Rightarrow> nat \<Rightarrow> nat \<Rightarrow> nat \<Rightarrow> event" where
  "generating_event chapter_outline i tot attempt =
     chapter_event ''progress'' ''generating'' chapter_outline i tot
       \<lparr>ev_attempt := Some attempt\<rparr>"

definition validating_event :: "ChapterOutline \<Rightarrow> nat \<Rightarrow> nat \<Rightarrow> nat \<Rightarrow> event" where
  "validating_event chapter_outline i tot attempt =
     chapter_event ''progress'' ''validating'' chapter_outline i tot
       \<lparr>ev_attempt := Some attempt\<rparr>"

definition retrying_event :: "ChapterOutline \<Rightarrow> nat \<Rightarrow> nat \<Rightarrow> nat \<Rightarrow> event" where
  "retrying_event chapter_outline i tot attempt =
     chapter_event ''progress'' ''retrying'' chapter_outline i tot
       \<lparr>ev_attempt := Some attempt\<rparr>"

definition failed_event :: "ChapterOutline \<Rightarrow> nat \<Rightarrow> nat \<Rightarrow> nat \<Rightarrow> event" where
  \<comment> \<open>the terminal event of type \<open>error\<close>\<close>
  "failed_event chapter_outline i tot attempts =
     chapter_event ''error'' ''failed'' chapter_outline i tot
       \<lparr>ev_attempts := Some attempts\<rparr>"

definition max_regeneration_attempts :: nat where
  "max_regeneration_attempts = 3"

datatype outcome = Completed | Again | Stopped

definition on_exception ::
  "ChapterOutline \<Rightarrow> nat \<Rightarrow> nat \<Rightarrow> nat \<Rightarrow> event \<times> outcome" where
  \<comment> \<open>the \<open>except\<close> block of the loop body; \<open>regeneration_attempts\<close> is the counter before
      the block increments it\<close>
  "on_exception chapter_outline i tot regeneration_attempts =
     (let attempts' = regeneration_attempts + 1
      in if attempts' \<le> max_regeneration_attempts
         then (retrying_event chapter_outline i tot attempts', Again)
         else (failed_event chapter_outline i tot attempts', Stopped))"

definition attempt_chapter ::
  "env \<Rightarrow> string \<Rightarrow> real \<Rightarrow> ChapterOutline \<Rightarrow> nat \<Rightarrow> nat \<Rightarrow> nat \<Rightarrow> state
     \<Rightarrow> event list \<times> outcome \<times> state" where
  \<comment> \<open>one pass through the body of the \<open>while\<close> loop: the events it yields, whether the
      chapter is completed, the loop goes round again (with the counter incremented) or
      the generator returns, and the state it leaves\<close>
  "attempt_chapter e workflow_id validation_threshold chapter_outline i tot
       regeneration_attempts st =
     (let chapter_number = co_chapter_number chapter_outline;
          generating = generating_event chapter_outline i tot (regeneration_attempts + 1);
          validating = validating_event chapter_outline i tot (regeneration_attempts + 1);
          (failure, after_failure) =
             on_exception chapter_outline i tot regeneration_attempts
      in case generate_chapter e st workflow_id chapter_number of
           (Inl err, st1) \<Rightarrow> ([generating, failure], after_failure, st1)
         | (Inr workflow1, st1) \<Rightarrow>
             (case validate_chapter e st1 workflow_id chapter_number of
                (Inl err, st2) \<Rightarrow> ([generating, validating, failure], after_failure, st2)
              | (Inr workflow, st2) \<Rightarrow>
                  (case find (\<lambda>ch. gc_chapter_number ch = chapter_number)
                          (wf_chapters workflow) of
                     None \<Rightarrow> ([generating, validating, failure], after_failure, st2)
                   | Some chapter \<Rightarrow>
                       (let validation_score =
                              (case gc_validation_score chapter of
                                 None \<Rightarrow> 0
                               | Some v \<Rightarrow> v)
                        in if validation_score \<ge> validation_threshold then
                             ([generating, validating,
                               chapter_event ''progress'' ''completed'' chapter_outline i tot
                                 \<lparr>ev_validation_score := Some validation_score,
                                  ev_validation_threshold := Some validation_threshold,
                                  ev_attempts := Some (regeneration_attempts + 1),
                                  ev_word_count := Some (gc_word_count chapter)\<rparr>],
                              Completed, st2)
                           else if regeneration_attempts + 1 \<le> max_regeneration_attempts then
                             ([generating, validating,
                               chapter_event ''progress'' ''regenerating'' chapter_outline i tot
                                 \<lparr>ev_validation_score := Some validation_score,
                                  ev_validation_threshold := Some validation_threshold,
                                  ev_attempt := Some (regeneration_attempts + 1)\<rparr>],
                              Again, st2)
                           else
                             ([generating, validating,
                               chapter_event ''warning'' ''completed_with_warning''
                                   chapter_outline i tot
                                 \<lparr>ev_validation_score := Some validation_score,
                                  ev_validation_threshold := Some validation_threshold,
                                  ev_attempts := Some (regeneration_attempts + 1),
                                  ev_word_count := Some (gc_word_count chapter)\<rparr>],
                              Completed, st2)))))"

function chapter_loop ::
  "env \<Rightarrow> string \<Rightarrow> real \<Rightarrow> ChapterOutline \<Rightarrow> nat \<Rightarrow> nat \<Rightarrow> nat \<Rightarrow> state
     \<Rightarrow> event list \<times> bool \<times> state" where
  \<comment> \<open>the \<open>while\<close> loop, entered with \<open>chapter_completed = False\<close>: the events, whether the
      generator is still running after it (\<open>False\<close> after its \<open>return\<close>), and the state\<close>
  "chapter_loop e workflow_id validation_threshold chapter_outline i tot
       regeneration_attempts st =
     (if regeneration_attempts \<le> max_regeneration_attempts then
        (case attempt_chapter e workflow_id validation_threshold chapter_outline i tot
                regeneration_attempts st of
           (evs, Completed, st') \<Rightarrow> (evs, True, st')
         | (evs, Stopped, st') \<Rightarrow> (evs, False, st')
         | (evs, Again, st') \<Rightarrow>
             (case chapter_loop e workflow_id validation_threshold chapter_outline i tot
                     (regeneration_attempts + 1) st' of
                (evs', running, st'') \<Rightarrow> (evs @ evs', running, st'')))
      else ([], True, st))"
  by pat_completeness auto
termination
  by (relation "measure (\<lambda>(e, w, t, c, i, tot, a, st). Suc max_regeneration_attempts - a)")
     auto

fun chapters_loop ::
  "env \<Rightarrow> string \<Rightarrow> real \<Rightarrow> nat \<Rightarrow> nat \<Rightarrow> ChapterOutline list \<Rightarrow> state
     \<Rightarrow> event list \<times> bool \<times> state" where
  \<comment> \<open>the \<open>for\<close> loop over \<open>enumerate(chapters_to_generate)\<close>, from index \<open>i\<close> on\<close>
  "chapters_loop e workflow_id validation_threshold tot i [] st = ([], True, st)"
| "chapters_loop e workflow_id validation_threshold tot i (chapter_outline # rest) st =
     (case chapter_loop e workflow_id validation_threshold chapter_outline i tot 0 st of
        (evs, False, st1) \<Rightarrow> (evs, False, st1)
      | (evs, True, st1) \<Rightarrow>
          (case chapters_loop e workflow_id validation_threshold tot (i + 1) rest st1 of
             (evs', running, st2) \<Rightarrow> (evs @ evs', running, st2)))"

definition chapters_to_generate ::
  "StoryWorkflow \<Rightarrow> StoryOutline \<Rightarrow> ChapterOutline list" where
  "chapters_to_generate workflow outline =
     filter (\<lambda>ch. co_chapter_number ch \<notin> set (map gc_chapter_number (wf_chapters workflow)))
       (so_chapters outline)"

definition generate_all_chapters_stream ::
  "env \<Rightarrow> state \<Rightarrow> string \<Rightarrow> real option \<Rightarrow> (error + event list) \<times> state" where
  \<comment> \<open>the events of the generator when it is drained. The local \<open>workflow\<close> is the object
      stored under \<open>workflow_id\<close>, so the snapshot of the last event reads the store\<close>
  "generate_all_chapters_stream e st workflow_id validation_threshold =
     (case get_workflow st workflow_id of
        None \<Rightarrow> (Inl (not_found workflow_id), st)
      | Some workflow \<Rightarrow>
          (case wf_outline workflow of
             None \<Rightarrow> (Inl (ValueError ''Story outline must be generated first''), st)
           | Some outline \<Rightarrow>
               (let threshold = (case validation_threshold of
                                   None \<Rightarrow> DEFAULT_VALIDATION_THRESHOLD
                                 | Some t \<Rightarrow> t);
                    total_chapters = length (so_chapters outline);
                    pending = chapters_to_generate workflow outline
                in if pending = [] then (Inr [complete_event None workflow], st)
                   else
                     (case chapters_loop e workflow_id threshold (length pending) 0 pending st of
                        (evs, False, st') \<Rightarrow> (Inr evs, st')
                      | (evs, True, st') \<Rightarrow>
                          (Inr (evs @ [complete_event (Some total_chapters)
                                         (case get_workflow st' workflow_id of
                                            None \<Rightarrow> workflow
                                          | Some w \<Rightarrow> w)]), st')))))"

subsection \<open>Sequences of stage operations\<close>

datatype stage_op =
  Characters string | Outline string | Chapter string int | Validate string int






section \<open>A concrete run\<close>

text \<open>
  The closed examples below run the operations in an environment whose library
  functions are defined on the few texts the examples use, where they agree with
  Python: \<open>json.loads\<close> decodes \<open>{}\<close> to the empty dictionary and rejects the other
  texts (none of which is JSON), \<open>float\<close> reads a string of decimal digits, the models
  with required fields reject empty keyword arguments, and \<open>StoryOutline\<close> accepts
  three strings, a list of chapters and \<open>None\<close>.
\<close>

definition ex_json_loads :: "string \<Rightarrow> json option" where
  "ex_json_loads s = (if s = ''{}'' then Some (JObj []) else None)"

definition ex_float :: "string \<Rightarrow> real option" where
  "ex_float s =
     (if s \<noteq> [] \<and> list_all (\<lambda>c. 48 \<le> (of_char c :: nat) \<and> (of_char c :: nat) \<le> 57) s
      then Some (real (foldl (\<lambda>a c. 10 * a + ((of_char c :: nat) - 48)) 0 s))
      else None)"

fun ex_new_StoryOutline ::
  "json \<Rightarrow> json \<Rightarrow> json \<Rightarrow> ChapterOutline list \<Rightarrow> json \<Rightarrow> StoryOutline option" where
  "ex_new_StoryOutline (JStr t) (JStr p) (JStr s) chs JNull =
     Some \<lparr>so_title = t, so_premise = p, so_plot_structure = s, so_chapters = chs,
           so_estimated_word_count = None\<rparr>"
| "ex_new_StoryOutline _ _ _ _ _ = None"

definition ex_env :: "(nat \<Rightarrow> http_outcome) \<Rightarrow> env" where
  "ex_env post =
     \<lparr>json_loads = ex_json_loads, py_float = ex_float,
      new_Character = (\<lambda>kw. None), new_StorySettings = (\<lambda>kw. None),
      new_ChapterOutline = (\<lambda>kw. None), new_StoryOutline = ex_new_StoryOutline,
      client_post = post\<rparr>"

definition replies :: "string list \<Rightarrow> nat \<Rightarrow> http_outcome" where
  \<comment> \<open>the service answers the first requests with the given texts and is unreachable
      afterwards\<close>
  "replies rs n =
     (if n < length rs then Response 200 [] (Some (rs ! n))
      else Raised ''All connection attempts failed'')"

definition unreachable :: "nat \<Rightarrow> http_outcome" where
  "unreachable n = Raised ''All connection attempts failed''"

definition server_error :: "nat \<Rightarrow> http_outcome" where
  "server_error n = Response 500 ''Internal Server Error'' None"

definition ex_replies :: "string list" where
  "ex_replies =
     [''Here are your characters'', ''{not json}'', ''Scene one.'', ''ANNA: Hello.'',
      ''It was a dark night.'', ''SCORE: 5'']"

definition ex_request :: CreateWorkflowRequest where
  "ex_request =
     \<lparr>cr_prompt = ''A lighthouse keeper finds a map'', cr_model = None,
      cr_temperature = Some (1 / 10), cr_top_p = Some (9 / 10)\<rparr>"

definition st_empty :: state where
  "st_empty = \<lparr>workflows = Map.empty, posted = []\<rparr>"

definition st_created :: state where
  "st_created = snd (create_workflow st_empty ''w1'' ex_request)"

definition st_characters :: state where
  "st_characters =
     snd (generate_characters_and_settings (ex_env (replies ex_replies)) st_created ''w1'')"

definition st_outlined :: state where
  "st_outlined = snd (generate_outline (ex_env (replies ex_replies)) st_characters ''w1'')"

definition st_chapter1 :: state where
  "st_chapter1 = snd (generate_chapter (ex_env (replies ex_replies)) st_outlined ''w1'' 1)"


definition ch_misnumbered :: ChapterOutline where
  "ch_misnumbered =
     \<lparr>co_chapter_number = 2, co_title = ''The Lamp'', co_summary = ''Night falls'',
      co_key_events = [], co_characters_involved = [], co_purpose = ''Open the story''\<rparr>"

definition wf_misnumbered :: StoryWorkflow where
  \<comment> \<open>a workflow whose outline has one chapter, which the reply numbered 2\<close>
  "wf_misnumbered =
     \<lparr>wf_id = ''w2'', wf_original_prompt = ''A lighthouse keeper finds a map'',
      wf_current_step = CHAPTER_GENERATION, wf_characters = fallback_characters,
      wf_settings = Some fallback_settings,
      wf_outline =
        Some \<lparr>so_title = ''The Map'', so_premise = ''A keeper and a map'',
              so_plot_structure = ''One act'',
              so_chapters = [ch_misnumbered],
              so_estimated_word_count = None\<rparr>,
      wf_chapters = [], wf_model = Some ''qwen3:8b'', wf_temperature = 7 / 10,
      wf_top_p = 9 / 10, wf_total_chapters_planned = 1, wf_chapters_completed = 0,
      wf_is_complete = False\<rparr>"

definition st_misnumbered :: state where
  "st_misnumbered = \<lparr>workflows = [''w2'' \<mapsto> wf_misnumbered], posted = []\<rparr>"

section \<open>Tries of the batch loop that raise\<close>

definition try_raises :: "env \<Rightarrow> state \<Rightarrow> string \<Rightarrow> int \<Rightarrow> bool" where
  \<comment> \<open>the \<open>try\<close> block of the loop body, run in state \<open>st\<close>, raises: in
      \<open>generate_chapter\<close>, in \<open>validate_chapter\<close> or in \<open>next\<close>\<close>
  "try_raises e st workflow_id chapter_number =
     (case generate_chapter e st workflow_id chapter_number of
        (Inl err, st1) \<Rightarrow> True
      | (Inr workflow1, st1) \<Rightarrow>
          (case validate_chapter e st1 workflow_id chapter_number of
             (Inl err, st2) \<Rightarrow> True
           | (Inr workflow, st2) \<Rightarrow>
               find (\<lambda>ch. gc_chapter_number ch = chapter_number) (wf_chapters workflow)
                 = None))"

definition state_after_try :: "env \<Rightarrow> state \<Rightarrow> string \<Rightarrow> int \<Rightarrow> state" where
  \<comment> \<open>the state the calls of the \<open>try\<close> block leave\<close>
  "state_after_try e st workflow_id chapter_number =
     (case generate_chapter e st workflow_id chapter_number of
        (Inl err, st1) \<Rightarrow> st1
      | (Inr workflow1, st1) \<Rightarrow> snd (validate_chapter e st1 workflow_id chapter_number))"

fun tries_raise :: "nat \<Rightarrow> env \<Rightarrow> state \<Rightarrow> string \<Rightarrow> int \<Rightarrow> bool" where
  \<comment> \<open>each of the next \<open>k\<close> tries raises, the first one run in state \<open>st\<close>\<close>
  "tries_raise 0 e st workflow_id chapter_number = True"
| "tries_raise (Suc k) e st workflow_id chapter_number =
     (try_raises e st workflow_id chapter_number
      \<and> tries_raise k e (state_after_try e st workflow_id chapter_number)
            workflow_id chapter_number)"

fun state_after_tries :: "nat \<Rightarrow> env \<Rightarrow> state \<Rightarrow> string \<Rightarrow> int \<Rightarrow> state" where
  "state_after_tries 0 e st workflow_id chapter_number = st"
| "state_after_tries (Suc k) e st workflow_id chapter_number =
     state_after_tries k e (state_after_try e st workflow_id chapter_number)
       workflow_id chapter_number"

section \<open>Properties of the reply parsers\<close>

lemma index_of_mem: "x \<in> set xs \<Longrightarrow> \<exists>k. index_of x xs = Some k"
  by (induction xs) auto

lemma scan_lines_no_score:
  assumes "\<forall>l\<in>set rest. \<not> startswith l ''SCORE:''" and "set rest \<subseteq> set lines"
  shows "\<exists>fb. scan_lines e lines rest sc fb0 = Some (sc, fb)"
  using assms
proof (induction rest)
  case Nil
  then show ?case by simp
next
  case (Cons line rest)
  from Cons.prems obtain k where "index_of line lines = Some k"
    using index_of_mem [of line lines] by auto
  with Cons show ?case by (auto simp: Let_def)
qed

lemma scan_lines_plain:
  assumes "\<forall>l\<in>set rest. \<not> startswith l ''SCORE:'' \<and> \<not> startswith l ''FEEDBACK:''"
  shows "scan_lines e lines rest sc fb = Some (sc, fb)"
  using assms by (induction rest) auto

text \<open>
  Claim C6, as amended. For a validation reply none of whose lines starts with
  \<open>SCORE:\<close>, \<open>_parse_validation_response\<close> returns the score 0.8, the default the loop
  starts from (0.7 is returned only when the loop raises, which it cannot do without a
  \<open>SCORE:\<close> line); the feedback is the full raw reply when no line starts with
  \<open>FEEDBACK:\<close> either.
\<close>

theorem validation_default_score:
  assumes "\<forall>line\<in>set (split_on (CHR 0x0A) (strip response)). \<not> startswith line ''SCORE:''"
  shows "fst (parse_validation_response e response) = 8 / 10 \<and>
         ((\<forall>line\<in>set (split_on (CHR 0x0A) (strip response)). \<not> startswith line ''FEEDBACK:'')
            \<longrightarrow> snd (parse_validation_response e response) = response)"
proof -
  let ?lines = "split_on (CHR 0x0A) (strip response)"
  obtain fb where fb: "scan_lines e ?lines ?lines (8 / 10) response = Some (8 / 10, fb)"
    using scan_lines_no_score [OF assms subset_refl] by blast
  have a: "fst (parse_validation_response e response) = 8 / 10"
    using fb by (simp add: parse_validation_response_def)
  have b: "snd (parse_validation_response e response) = response"
    if "\<forall>line\<in>set ?lines. \<not> startswith line ''FEEDBACK:''"
  proof -
    have "scan_lines e ?lines ?lines (8 / 10) response = Some (8 / 10, response)"
      using assms that by (intro scan_lines_plain) blast
    then show ?thesis by (simp add: parse_validation_response_def)
  qed
  from a b show ?thesis by blast
qed

theorem validation_default_score_witness:
  "split_on (CHR 0x0A) (strip ''Looks good to me'') = [''Looks good to me'']
   \<and> parse_validation_response (ex_env unreachable) ''Looks good to me''
       = (8 / 10, ''Looks good to me'')"
proof -
  have l: "split_on (CHR 0x0A) (strip ''Looks good to me'') = [''Looks good to me'']"
    by code_simp
  have h: "\<forall>line\<in>set (split_on (CHR 0x0A) (strip ''Looks good to me'')).
             \<not> startswith line ''SCORE:''"
    unfolding l by (simp add: startswith_def)
  have g: "\<forall>line\<in>set (split_on (CHR 0x0A) (strip ''Looks good to me'')).
             \<not> startswith line ''FEEDBACK:''"
    unfolding l by (simp add: startswith_def)
  from validation_default_score [OF h, of "ex_env unreachable"] g l
  show ?thesis by (simp add: prod_eq_iff)
qed

text \<open>
  The claim as first stated fails on the reply \<open>FEEDBACK: fine\<close>, which has no
  \<open>SCORE:\<close> line: the score returned is 0.8, not 0.7, and the feedback is \<open>fine\<close>, not
  the full reply.
\<close>

theorem validation_default_score_counterexample:
  "split_on (CHR 0x0A) (strip ''FEEDBACK: fine'') = [''FEEDBACK: fine'']
   \<and> startswith ''FEEDBACK: fine'' ''SCORE:'' = False
   \<and> parse_validation_response (ex_env unreachable) ''FEEDBACK: fine'' = (8 / 10, ''fine'')
   \<and> (8 / 10 :: real) \<noteq> 7 / 10 \<and> ''fine'' \<noteq> ''FEEDBACK: fine''"
  by code_simp

text \<open>
  Claim C5. For a reply that contains no brace, \<open>_parse_outline_response\<close> takes neither
  the \<open>return\<close> of its \<open>try\<close> block nor the fallback of its \<open>except\<close> block: the \<open>if\<close>
  has no \<open>else\<close>, and the function returns \<open>None\<close>. On the same reply
  \<open>_parse_characters_settings_response\<close>, whose \<open>if\<close> has an \<open>else\<close> that raises, returns
  its fallback.
\<close>

theorem outline_parser_returns_nothing:
  "parse_outline_response e ''I cannot help with that.'' = None
   \<and> parse_characters_settings_response e ''I cannot help with that.''
       = (fallback_characters, fallback_settings)"
  by (simp add: parse_outline_response_def try_outline_def py_find_def py_rfind_def
        parse_characters_settings_response_def try_characters_settings_def)

section \<open>Properties of the stage operations\<close>

lemma gsc_workflows [simp]:
  "workflows (snd (generate_story_complete e st m t p s)) = workflows st"
  by (simp add: generate_story_complete_def Let_def split: http_outcome.splits)



lemma gco_workflows [simp]:
  "workflows (snd (generate_chapter_outline e st wfl)) = workflows st"
  by (simp add: generate_chapter_outline_def split_def Let_def split: option.splits)

lemma gcd_workflows [simp]:
  "workflows (snd (generate_chapter_dialogue e st wfl)) = workflows st"
  by (simp add: generate_chapter_dialogue_def)

lemma gcc_workflows [simp]:
  "workflows (snd (generate_chapter_content e st wfl)) = workflows st"
  by (simp add: generate_chapter_content_def split_def Let_def split: option.splits)

lemma store_chapter_fields [simp]:
  "wf_current_step (store_chapter wfl g) = wf_current_step wfl"
  "wf_outline (store_chapter wfl g) = wf_outline wfl"
  by (simp_all add: store_chapter_def split: option.splits)




lemma gsc_posted_eq:
  "posted (snd (generate_story_complete e st m t p s)) =
     posted st @
       [\<lparr>pl_model = (case m of None \<Rightarrow> OLLAMA_DEFAULT_MODEL
                         | Some m' \<Rightarrow> if m' = [] then OLLAMA_DEFAULT_MODEL else m'),
         pl_stream = False, pl_temperature = t, pl_top_p = p, pl_num_predict = - 1,
         pl_system = (case s of None \<Rightarrow> None
                      | Some s' \<Rightarrow> if s' = [] then None else Some s')\<rparr>]"
  by (simp add: generate_story_complete_def Let_def split: http_outcome.splits)














text \<open>
  Claim C2. \<open>generate_story_complete\<close> catches every exception of the request, the one
  it raises itself for a status other than 200 included, and returns the text
  \<open>Error: ...\<close> as if it were the reply. The stage operation therefore does not raise:
  with the service unreachable, and with the service answering status 500,
  \<open>generate_characters_and_settings\<close> returns, stores the placeholder character and
  settings and advances the workflow to \<open>OUTLINE\<close>.
\<close>

theorem service_failure_completes_stage:
  "\<not> isl (fst (generate_characters_and_settings (ex_env unreachable) st_created ''w1''))
   \<and> map_option (\<lambda>w. (wf_characters w, wf_settings w, wf_current_step w))
        (workflows (snd (generate_characters_and_settings (ex_env unreachable)
                           st_created ''w1'')) ''w1'')
      = Some (fallback_characters, Some fallback_settings, OUTLINE)
   \<and> \<not> isl (fst (generate_characters_and_settings (ex_env server_error) st_created ''w1''))
   \<and> map_option (\<lambda>w. (wf_characters w, wf_settings w, wf_current_step w))
        (workflows (snd (generate_characters_and_settings (ex_env server_error)
                           st_created ''w1'')) ''w1'')
      = Some (fallback_characters, Some fallback_settings, OUTLINE)
   \<and> fst (generate_story_complete (ex_env server_error) st_created None (7 / 10) (9 / 10) None)
      = ''Error: Ollama API error: 500 - Internal Server Error''"
  by code_simp

text \<open>
  Claim C3. \<open>generate_chapter\<close> rejects only a chapter number above the length of the
  outline. With an outline of one chapter, chapter number 0 reads \<open>chapters[-1]\<close>, the
  last chapter of the outline: the operation returns and the workflow holds a generated
  chapter numbered 0, a number the outline does not have.
\<close>

theorem chapter_zero_is_generated:
  "map_option (\<lambda>w. map_option (\<lambda>ol. map co_chapter_number (so_chapters ol)) (wf_outline w))
       (workflows st_outlined ''w1'') = Some (Some [1])
   \<and> \<not> isl (fst (generate_chapter (ex_env (replies ex_replies)) st_outlined ''w1'' 0))
   \<and> map_option (\<lambda>w. map gc_chapter_number (wf_chapters w))
        (workflows (snd (generate_chapter (ex_env (replies ex_replies)) st_outlined ''w1'' 0))
           ''w1'') = Some [0]"
  by code_simp









text \<open>
  Claim C9. \<open>validate_chapter\<close> stores the number that \<open>float\<close> reads after \<open>SCORE:\<close> as
  it is, with no check of its range: for the reply \<open>SCORE: 5\<close> the stored validation
  score is 5.
\<close>

theorem validation_score_out_of_range:
  "map_option (\<lambda>w. map gc_validation_score (wf_chapters w))
      (workflows (snd (validate_chapter (ex_env (replies ex_replies)) st_chapter1 ''w1'' 1))
         ''w1'') = Some [Some 5]
   \<and> \<not> isl (fst (validate_chapter (ex_env (replies ex_replies)) st_chapter1 ''w1'' 1))
   \<and> \<not> (5 :: real) \<le> 1"
  by code_simp

lemma validate_success_posted:
  assumes "validate_chapter e st w n = (Inr wfl', st')"
  shows "\<exists>pl. posted st' = posted st @ [pl] \<and> pl_temperature pl = 3 / 10"
  using assms
  by (auto simp: validate_chapter_def Let_def split_def gsc_posted_eq split: option.splits)

text \<open>
  Claim C10, as amended. Whenever \<open>validate_chapter\<close> returns, it has posted exactly one
  request to the text-generation service, with the fixed temperature 0.3, whatever the
  temperature of the workflow is; that is strictly lower than the temperature of the
  workflow exactly when the latter is above 0.3.
\<close>

theorem validation_temperature_fixed:
  assumes "get_workflow st w = Some wfl" and "validate_chapter e st w n = (Inr wfl', st')"
  shows "\<exists>pl. posted st' = posted st @ [pl] \<and> pl_temperature pl = 3 / 10
              \<and> (pl_temperature pl < wf_temperature wfl \<longleftrightarrow> 3 / 10 < wf_temperature wfl)"
  using validate_success_posted [OF assms(2)] by auto

theorem validation_temperature_fixed_witness:
  "\<not> isl (fst (validate_chapter (ex_env (replies ex_replies)) st_chapter1 ''w1'' 1))
   \<and> map pl_temperature
        (drop (length (posted st_chapter1))
           (posted (snd (validate_chapter (ex_env (replies ex_replies)) st_chapter1 ''w1'' 1))))
       = [3 / 10]"
proof -
  let ?V = "validate_chapter (ex_env (replies ex_replies)) st_chapter1 ''w1'' 1"
  have h1: "get_workflow st_chapter1 ''w1'' = Some (the (workflows st_chapter1 ''w1''))"
    unfolding get_workflow_def by code_simp
  have ok: "\<not> isl (fst ?V)" by code_simp
  have h2: "?V = (Inr (projr (fst ?V)), snd ?V)"
    using ok by (cases ?V; cases "fst ?V") auto
  have a: "map pl_temperature (drop (length (posted st_chapter1)) (posted (snd ?V))) = [3 / 10]"
    by code_simp
  from validation_temperature_fixed [OF h1 h2] ok a
  show ?thesis by simp
qed

text \<open>
  The claim as first stated fails for a workflow created with temperature 0.1: its
  generation requests carry 0.1 and its validation request carries 0.3, which is higher.
\<close>

theorem validation_temperature_counterexample:
  "map_option wf_temperature (workflows st_chapter1 ''w1'') = Some (1 / 10)
   \<and> map pl_temperature
        (posted (snd (validate_chapter (ex_env (replies ex_replies)) st_chapter1 ''w1'' 1)))
       = [1 / 10, 1 / 10, 1 / 10, 1 / 10, 1 / 10, 3 / 10]
   \<and> \<not> (3 / 10 :: real) < 1 / 10"
  by code_simp

section \<open>Properties of the batch loop\<close>

declare chapter_loop.simps [simp del]

lemma on_exception_again:
  "a + 1 \<le> max_regeneration_attempts \<Longrightarrow>
     on_exception c i tot a = (retrying_event c i tot (a + 1), Again)"
  by (simp add: on_exception_def Let_def)

lemma on_exception_stopped:
  "\<not> a + 1 \<le> max_regeneration_attempts \<Longrightarrow>
     on_exception c i tot a = (failed_event c i tot (a + 1), Stopped)"
  by (simp add: on_exception_def Let_def)

lemma attempt_raises:
  assumes "try_raises e s w (co_chapter_number c)"
  shows "\<exists>v. v \<in> {[], [validating_event c i tot (a + 1)]}
           \<and> attempt_chapter e w thr c i tot a s =
               ([generating_event c i tot (a + 1)] @ v @ [fst (on_exception c i tot a)],
                snd (on_exception c i tot a),
                state_after_try e s w (co_chapter_number c))"
  using assms
  by (auto simp: try_raises_def attempt_chapter_def state_after_try_def Let_def split_def
       split: prod.splits sum.splits option.splits)

lemma chapter_loop_again:
  assumes "a + 1 \<le> max_regeneration_attempts"
    and "attempt_chapter e w thr c i tot a s = (evs, Again, s')"
  shows "chapter_loop e w thr c i tot a s =
           (evs @ fst (chapter_loop e w thr c i tot (a + 1) s'),
            snd (chapter_loop e w thr c i tot (a + 1) s'))"
  using assms by (subst chapter_loop.simps) (simp add: split_def)

lemma chapter_loop_stopped:
  assumes "a \<le> max_regeneration_attempts"
    and "attempt_chapter e w thr c i tot a s = (evs, Stopped, s')"
  shows "chapter_loop e w thr c i tot a s = (evs, False, s')"
  using assms by (subst chapter_loop.simps) simp

lemma chapter_loop_raise_retry:
  assumes "k = a + 1" and "k \<le> max_regeneration_attempts"
    and "try_raises e s w (co_chapter_number c)"
  shows "\<exists>v. v \<in> {[], [validating_event c i tot k]}
           \<and> chapter_loop e w thr c i tot a s =
               ([generating_event c i tot k] @ v @ [retrying_event c i tot k]
                  @ fst (chapter_loop e w thr c i tot k
                           (state_after_try e s w (co_chapter_number c))),
                snd (chapter_loop e w thr c i tot k
                       (state_after_try e s w (co_chapter_number c))))"
proof -
  have le: "a + 1 \<le> max_regeneration_attempts" using assms(1,2) by simp
  from attempt_raises [OF assms(3), where i = i and tot = tot and a = a and thr = thr]
    on_exception_again [OF le, where c = c and i = i and tot = tot]
  obtain v where v: "v \<in> {[], [validating_event c i tot (a + 1)]}"
    and at: "attempt_chapter e w thr c i tot a s =
               ([generating_event c i tot (a + 1)] @ v @ [retrying_event c i tot (a + 1)],
                Again, state_after_try e s w (co_chapter_number c))"
    by auto
  from chapter_loop_again [OF le at] v show ?thesis unfolding assms(1) by auto
qed

lemma chapter_loop_raise_last:
  assumes "k = a + 1" and "a = max_regeneration_attempts"
    and "try_raises e s w (co_chapter_number c)"
  shows "\<exists>v. v \<in> {[], [validating_event c i tot k]}
           \<and> chapter_loop e w thr c i tot a s =
               ([generating_event c i tot k] @ v @ [failed_event c i tot k],
                False, state_after_try e s w (co_chapter_number c))"
proof -
  have n: "\<not> a + 1 \<le> max_regeneration_attempts" using assms(2) by simp
  from attempt_raises [OF assms(3), where i = i and tot = tot and a = a and thr = thr]
    on_exception_stopped [OF n, where c = c and i = i and tot = tot]
  obtain v where v: "v \<in> {[], [validating_event c i tot (a + 1)]}"
    and at: "attempt_chapter e w thr c i tot a s =
               ([generating_event c i tot (a + 1)] @ v @ [failed_event c i tot (a + 1)],
                Stopped, state_after_try e s w (co_chapter_number c))"
    by auto
  have "a \<le> max_regeneration_attempts" using assms(2) by simp
  from chapter_loop_stopped [OF this at] v show ?thesis unfolding assms(1) by auto
qed

lemma chapter_loop_all_raise:
  assumes "tries_raise (Suc max_regeneration_attempts) e s w (co_chapter_number c)"
  shows "\<exists>v1 v2 v3 v4.
           v1 \<in> {[], [validating_event c i tot 1]} \<and> v2 \<in> {[], [validating_event c i tot 2]}
         \<and> v3 \<in> {[], [validating_event c i tot 3]} \<and> v4 \<in> {[], [validating_event c i tot 4]}
         \<and> chapter_loop e w thr c i tot 0 s =
             ([generating_event c i tot 1] @ v1 @ [retrying_event c i tot 1]
              @ [generating_event c i tot 2] @ v2 @ [retrying_event c i tot 2]
              @ [generating_event c i tot 3] @ v3 @ [retrying_event c i tot 3]
              @ [generating_event c i tot 4] @ v4 @ [failed_event c i tot 4],
              False,
              state_after_tries (Suc max_regeneration_attempts) e s w (co_chapter_number c))"
proof -
  let ?n = "co_chapter_number c"
  let ?s1 = "state_after_try e s w ?n"
  let ?s2 = "state_after_try e ?s1 w ?n"
  let ?s3 = "state_after_try e ?s2 w ?n"
  let ?s4 = "state_after_try e ?s3 w ?n"
  from assms have r0: "try_raises e s w ?n" and r1: "try_raises e ?s1 w ?n"
    and r2: "try_raises e ?s2 w ?n" and r3: "try_raises e ?s3 w ?n"
    by (simp_all add: max_regeneration_attempts_def numeral_3_eq_3)
  have fin: "state_after_tries (Suc max_regeneration_attempts) e s w ?n = ?s4"
    by (simp add: max_regeneration_attempts_def numeral_3_eq_3)
  have k1: "(1::nat) = 0 + 1" and k2: "(2::nat) = 1 + 1" and k3: "(3::nat) = 2 + 1"
    and k4: "(4::nat) = 3 + 1" by simp_all
  have m1: "(1::nat) \<le> max_regeneration_attempts" and m2: "(2::nat) \<le> max_regeneration_attempts"
    and m3: "(3::nat) \<le> max_regeneration_attempts" and m4: "(3::nat) = max_regeneration_attempts"
    by (simp_all add: max_regeneration_attempts_def)
  from chapter_loop_raise_retry [OF k1 m1 r0, where i = i and tot = tot and thr = thr]
  obtain v1 where v1: "v1 \<in> {[], [validating_event c i tot 1]}"
    and l0: "chapter_loop e w thr c i tot 0 s =
       ([generating_event c i tot 1] @ v1 @ [retrying_event c i tot 1]
          @ fst (chapter_loop e w thr c i tot 1 ?s1), snd (chapter_loop e w thr c i tot 1 ?s1))"
    by blast
  from chapter_loop_raise_retry [OF k2 m2 r1, where i = i and tot = tot and thr = thr]
  obtain v2 where v2: "v2 \<in> {[], [validating_event c i tot 2]}"
    and l1: "chapter_loop e w thr c i tot 1 ?s1 =
       ([generating_event c i tot 2] @ v2 @ [retrying_event c i tot 2]
          @ fst (chapter_loop e w thr c i tot 2 ?s2), snd (chapter_loop e w thr c i tot 2 ?s2))"
    by blast
  from chapter_loop_raise_retry [OF k3 m3 r2, where i = i and tot = tot and thr = thr]
  obtain v3 where v3: "v3 \<in> {[], [validating_event c i tot 3]}"
    and l2: "chapter_loop e w thr c i tot 2 ?s2 =
       ([generating_event c i tot 3] @ v3 @ [retrying_event c i tot 3]
          @ fst (chapter_loop e w thr c i tot 3 ?s3), snd (chapter_loop e w thr c i tot 3 ?s3))"
    by blast
  from chapter_loop_raise_last [OF k4 m4 r3, where i = i and tot = tot and thr = thr]
  obtain v4 where v4: "v4 \<in> {[], [validating_event c i tot 4]}"
    and l3: "chapter_loop e w thr c i tot 3 ?s3 =
       ([generating_event c i tot 4] @ v4 @ [failed_event c i tot 4], False, ?s4)"
    by blast
  have "chapter_loop e w thr c i tot 0 s =
             ([generating_event c i tot 1] @ v1 @ [retrying_event c i tot 1]
              @ [generating_event c i tot 2] @ v2 @ [retrying_event c i tot 2]
              @ [generating_event c i tot 3] @ v3 @ [retrying_event c i tot 3]
              @ [generating_event c i tot 4] @ v4 @ [failed_event c i tot 4],
              False, ?s4)"
    unfolding l0 l1 l2 l3 by simp
  with v1 v2 v3 v4 show ?thesis unfolding fin by blast
qed

lemma chapters_loop_append:
  assumes "chapters_loop e w thr tot i pre st = (evs, True, s)"
  shows "chapters_loop e w thr tot i (pre @ cs) st =
           (evs @ fst (chapters_loop e w thr tot (i + length pre) cs s),
            snd (chapters_loop e w thr tot (i + length pre) cs s))"
  using assms
proof (induction pre arbitrary: i st evs)
  case Nil
  then show ?case by simp
next
  case (Cons c pre)
  from Cons.prems show ?case
    by (auto simp: split_def split: prod.splits bool.splits if_splits dest!: Cons.IH)
qed

text \<open>
  When each of the four tries for a pending chapter \<open>c\<close> raises, the loop does what its
  \<open>except\<close> block says. Let the loop reach \<open>c\<close>, after the pending chapters \<open>pre\<close>
  before it have been completed, in a state from which each of the four tries raises.
  Then the stream consists of the events of the earlier chapters followed, for each of the
  first three tries, by a \<open>generating\<close> event (and a \<open>validating\<close> event when generation
  returned) and a \<open>retrying\<close> event, and for the fourth try by a \<open>generating\<close> event and
  the terminal \<open>error\<close> event; it has no event for the chapters \<open>rest\<close> after \<open>c\<close> and no
  \<open>complete\<close> event.
\<close>

lemma raising_tries_stop_batch:
  assumes "get_workflow st w = Some wfl" and "wf_outline wfl = Some ol"
    and "chapters_to_generate wfl ol = pre @ c # rest"
    and "thr = (case vt of None \<Rightarrow> DEFAULT_VALIDATION_THRESHOLD | Some t \<Rightarrow> t)"
    and "chapters_loop e w thr (length (pre @ c # rest)) 0 pre st = (evs, True, s)"
    and "tries_raise (Suc max_regeneration_attempts) e s w (co_chapter_number c)"
    and "i = length pre" and "tot = length (pre @ c # rest)"
  shows "\<exists>v1 v2 v3 v4.
           v1 \<in> {[], [validating_event c i tot 1]} \<and> v2 \<in> {[], [validating_event c i tot 2]}
         \<and> v3 \<in> {[], [validating_event c i tot 3]} \<and> v4 \<in> {[], [validating_event c i tot 4]}
         \<and> generate_all_chapters_stream e st w vt =
             (Inr (evs
                   @ [generating_event c i tot 1] @ v1 @ [retrying_event c i tot 1]
                   @ [generating_event c i tot 2] @ v2 @ [retrying_event c i tot 2]
                   @ [generating_event c i tot 3] @ v3 @ [retrying_event c i tot 3]
                   @ [generating_event c i tot 4] @ v4 @ [failed_event c i tot 4]),
              state_after_tries (Suc max_regeneration_attempts) e s w (co_chapter_number c))"
proof -
  from chapter_loop_all_raise [OF assms(6), where i = i and tot = tot and thr = thr]
  obtain v1 v2 v3 v4 where
    v: "v1 \<in> {[], [validating_event c i tot 1]}" "v2 \<in> {[], [validating_event c i tot 2]}"
       "v3 \<in> {[], [validating_event c i tot 3]}" "v4 \<in> {[], [validating_event c i tot 4]}"
    and cl: "chapter_loop e w thr c i tot 0 s =
             ([generating_event c i tot 1] @ v1 @ [retrying_event c i tot 1]
              @ [generating_event c i tot 2] @ v2 @ [retrying_event c i tot 2]
              @ [generating_event c i tot 3] @ v3 @ [retrying_event c i tot 3]
              @ [generating_event c i tot 4] @ v4 @ [failed_event c i tot 4],
              False,
              state_after_tries (Suc max_regeneration_attempts) e s w (co_chapter_number c))"
    by blast
  have rest: "chapters_loop e w thr tot i (c # rest) s =
             ([generating_event c i tot 1] @ v1 @ [retrying_event c i tot 1]
              @ [generating_event c i tot 2] @ v2 @ [retrying_event c i tot 2]
              @ [generating_event c i tot 3] @ v3 @ [retrying_event c i tot 3]
              @ [generating_event c i tot 4] @ v4 @ [failed_event c i tot 4],
              False,
              state_after_tries (Suc max_regeneration_attempts) e s w (co_chapter_number c))"
    using cl by simp
  have pre: "chapters_loop e w thr tot 0 pre st = (evs, True, s)"
    using assms(5,8) by simp
  have whole: "chapters_loop e w thr tot 0 (pre @ c # rest) st =
             (evs @ [generating_event c i tot 1] @ v1 @ [retrying_event c i tot 1]
              @ [generating_event c i tot 2] @ v2 @ [retrying_event c i tot 2]
              @ [generating_event c i tot 3] @ v3 @ [retrying_event c i tot 3]
              @ [generating_event c i tot 4] @ v4 @ [failed_event c i tot 4],
              False,
              state_after_tries (Suc max_regeneration_attempts) e s w (co_chapter_number c))"
    using chapters_loop_append [OF pre, of "c # rest"] rest assms(7) by simp
  have "generate_all_chapters_stream e st w vt =
             (Inr (evs
                   @ [generating_event c i tot 1] @ v1 @ [retrying_event c i tot 1]
                   @ [generating_event c i tot 2] @ v2 @ [retrying_event c i tot 2]
                   @ [generating_event c i tot 3] @ v3 @ [retrying_event c i tot 3]
                   @ [generating_event c i tot 4] @ v4 @ [failed_event c i tot 4]),
              state_after_tries (Suc max_regeneration_attempts) e s w (co_chapter_number c))"
    using assms(1,2,3) whole
    unfolding generate_all_chapters_stream_def assms(4) assms(8)
    by (simp add: Let_def)
  with v show ?thesis by blast
qed

lemma raising_tries_stop_batch_example:
  "chapters_to_generate wf_misnumbered (the (wf_outline wf_misnumbered)) = [ch_misnumbered]
   \<and> tries_raise (Suc max_regeneration_attempts) (ex_env unreachable) st_misnumbered ''w2'' 2
   \<and> fst (generate_all_chapters_stream (ex_env unreachable) st_misnumbered ''w2'' None) =
       Inr [generating_event ch_misnumbered 0 1 1, retrying_event ch_misnumbered 0 1 1,
            generating_event ch_misnumbered 0 1 2, retrying_event ch_misnumbered 0 1 2,
            generating_event ch_misnumbered 0 1 3, retrying_event ch_misnumbered 0 1 3,
            generating_event ch_misnumbered 0 1 4, failed_event ch_misnumbered 0 1 4]"
proof -
  have h1: "get_workflow st_misnumbered ''w2'' = Some wf_misnumbered"
    by (simp add: get_workflow_def st_misnumbered_def)
  have h2: "wf_outline wf_misnumbered = Some (the (wf_outline wf_misnumbered))"
    by (simp add: wf_misnumbered_def)
  have h3: "chapters_to_generate wf_misnumbered (the (wf_outline wf_misnumbered))
              = [] @ ch_misnumbered # []"
    by (simp add: chapters_to_generate_def wf_misnumbered_def)
  have h4: "DEFAULT_VALIDATION_THRESHOLD
              = (case None of None \<Rightarrow> DEFAULT_VALIDATION_THRESHOLD | Some t \<Rightarrow> t)"
    by simp
  have h5: "chapters_loop (ex_env unreachable) ''w2'' DEFAULT_VALIDATION_THRESHOLD
              (length ([] @ ch_misnumbered # [])) 0 [] st_misnumbered = ([], True, st_misnumbered)"
    by simp
  have h6: "tries_raise (Suc max_regeneration_attempts) (ex_env unreachable) st_misnumbered
              ''w2'' (co_chapter_number ch_misnumbered)"
    by code_simp
  have n: "co_chapter_number ch_misnumbered = 2" by (simp add: ch_misnumbered_def)
  have r: "fst (generate_all_chapters_stream (ex_env unreachable) st_misnumbered ''w2'' None) =
       Inr [generating_event ch_misnumbered 0 1 1, retrying_event ch_misnumbered 0 1 1,
            generating_event ch_misnumbered 0 1 2, retrying_event ch_misnumbered 0 1 2,
            generating_event ch_misnumbered 0 1 3, retrying_event ch_misnumbered 0 1 3,
            generating_event ch_misnumbered 0 1 4, failed_event ch_misnumbered 0 1 4]"
    by code_simp
  from raising_tries_stop_batch [OF h1 h2 h3 h4 h5 h6, of 0 1] h3 h6 n r
  show ?thesis by simp
qed

text \<open>
  Claim C7. A try raises only where \<open>generate_chapter\<close> or \<open>validate_chapter\<close> raises,
  and a failing request to the text-generation service makes neither raise: the service
  returns the text \<open>Error: ...\<close> as the reply. With the service unreachable for every
  request, the batch run on a workflow with one pending chapter has no try that raises: it
  stores the error text as the outline, dialogue and content of the chapter, reads the
  default score 0.8 from the error text of the validation request, and yields
  \<open>generating\<close>, \<open>validating\<close>, \<open>completed\<close> and the final \<open>complete\<close> event, with no
  \<open>retrying\<close> and no \<open>error\<close> event.
\<close>

theorem service_failure_completes_batch:
  "\<not> isl (fst (generate_all_chapters_stream (ex_env unreachable) st_outlined ''w1'' None))
   \<and> map (\<lambda>ev. (ev_type ev, ev_status ev, ev_chapter_number ev, ev_attempt ev, ev_attempts ev,
                 ev_validation_score ev))
        (projr (fst (generate_all_chapters_stream (ex_env unreachable) st_outlined ''w1'' None)))
      = [(''progress'', Some ''generating'', Some 1, Some 1, None, None),
         (''progress'', Some ''validating'', Some 1, Some 1, None, None),
         (''progress'', Some ''completed'', Some 1, None, Some 1, Some (8 / 10)),
         (''complete'', None, None, None, None, None)]
   \<and> map_option wf_chapters
        (workflows (snd (generate_all_chapters_stream (ex_env unreachable) st_outlined
                           ''w1'' None)) ''w1'')
      = Some [\<lparr>gc_chapter_number = 1, gc_title = ''Chapter 1'',
               gc_outline = ''Error: All connection attempts failed'',
               gc_dialogue = ''Error: All connection attempts failed'',
               gc_content = ''Error: All connection attempts failed'',
               gc_word_count = 5, gc_validation_score = Some (8 / 10),
               gc_validation_feedback = Some ''Error: All connection attempts failed''\<rparr>]
   \<and> try_raises (ex_env unreachable) st_outlined ''w1'' 1 = False"
  by code_simp

end
